theory Spec2Isabelle
  imports Main "HOL-Library.Sublist"
begin

section \<open>Batch job notifications: \<open>cdk/lambda/format-notification.py\<close>\<close>

text \<open>
  The module holds one function, \<open>handler(event, context)\<close>, which reads six values out
  of an EventBridge event, renders a subject and a multi-line message with f-strings, and
  hands both to \<open>sns.publish\<close>. The embedding below follows it statement by statement.

  Python's \<open>str\<close> is modelled as \<open>string\<close> holding the UTF-8 bytes of the text: the two
  emoji of the source are three bytes each, and one text occurs inside another exactly
  when its bytes occur inside the other's bytes.
\<close>

subsection \<open>Values of a decoded JSON event\<close>

text \<open>
  A float is kept opaque: nothing in the handler computes with one, it can only be
  rendered, and the rendering is a parameter (see \<open>repr\<close> below).
\<close>

typedecl pyfloat

datatype json =
    JNull
  | JBool bool
  | JInt int
  | JFloat pyfloat
  | JStr string
  | JArr "json list"
  | JObj "string \<Rightarrow> json option"

datatype py_error =
    KeyError string
  | TypeError
  | AttributeError
  | ClientError string

text \<open>\<open>v[k]\<close>: a dict without the key raises KeyError, anything that is not a dict raises
  TypeError (a str index on a list or str, or a value that is not subscriptable).\<close>

definition subscript :: "json \<Rightarrow> string \<Rightarrow> py_error + json" where
  "subscript v k =
     (case v of
        JObj m \<Rightarrow> (case m k of None \<Rightarrow> Inl (KeyError k) | Some x \<Rightarrow> Inr x)
      | _ \<Rightarrow> Inl TypeError)"

text \<open>\<open>v.get(k, default)\<close>: only a dict has the method.\<close>

definition dict_get :: "json \<Rightarrow> string \<Rightarrow> json \<Rightarrow> py_error + json" where
  "dict_get v k dflt =
     (case v of
        JObj m \<Rightarrow> Inr (case m k of None \<Rightarrow> dflt | Some x \<Rightarrow> x)
      | _ \<Rightarrow> Inl AttributeError)"

text \<open>\<open>v == 'literal'\<close>: only a str can be equal to a str.\<close>

definition eq_str :: "json \<Rightarrow> string \<Rightarrow> bool" where
  "eq_str v s = (case v of JStr t \<Rightarrow> t = s | _ \<Rightarrow> False)"

subsection \<open>Rendering a value inside an f-string\<close>

definition digit_char :: "nat \<Rightarrow> char" where
  "digit_char n = ''0123456789'' ! n"

fun str_nat :: "nat \<Rightarrow> string" where
  "str_nat n = (if n < 10 then [digit_char n] else str_nat (n div 10) @ [digit_char (n mod 10)])"

declare str_nat.simps [simp del]

definition str_int :: "int \<Rightarrow> string" where
  "str_int i = (if i < 0 then CHR ''-'' # str_nat (nat (- i)) else str_nat (nat i))"

text \<open>
  Reading a decimal numeral back, as \<open>int(s)\<close> does on the text \<open>str\<close> writes: digits
  only, no leading zero, a minus sign for a negative number, no \<open>-0\<close>. It is written
  without reference to \<open>str_int\<close>, so that it can say what the digits of \<open>str_int\<close> are.
\<close>

definition digit_of :: "char \<Rightarrow> nat option" where
  "digit_of =
     map_of [(CHR ''0'', 0), (CHR ''1'', 1), (CHR ''2'', 2), (CHR ''3'', 3), (CHR ''4'', 4),
             (CHR ''5'', 5), (CHR ''6'', 6), (CHR ''7'', 7), (CHR ''8'', 8), (CHR ''9'', 9)]"

fun read_digits :: "nat \<Rightarrow> string \<Rightarrow> nat option" where
  "read_digits a [] = Some a"
| "read_digits a (c # cs) =
     (case digit_of c of None \<Rightarrow> None | Some k \<Rightarrow> read_digits (10 * a + k) cs)"

definition read_nat :: "string \<Rightarrow> nat option" where
  "read_nat ds =
     (case ds of
        [] \<Rightarrow> None
      | [c] \<Rightarrow> digit_of c
      | c # cs \<Rightarrow> (if c = CHR ''0'' then None else read_digits 0 ds))"

definition read_int :: "string \<Rightarrow> int option" where
  "read_int s =
     (case s of
        [] \<Rightarrow> None
      | c # ds \<Rightarrow>
          (if c = CHR ''-'' then
             (case read_nat ds of
                None \<Rightarrow> None
              | Some k \<Rightarrow> (if k = 0 then None else Some (- int k)))
           else map_option int (read_nat s)))"

text \<open>
  \<open>f"{v}"\<close> is \<open>format(v, "")\<close>, which is \<open>str(v)\<close> for every JSON value: a str is
  copied as it is, an int is written in decimal, \<open>True\<close>, \<open>False\<close> and \<open>None\<close> by name.
  The text of a float, a list or a dict is left to the parameter \<open>repr\<close>.
\<close>

definition format_value :: "(json \<Rightarrow> string) \<Rightarrow> json \<Rightarrow> string" where
  "format_value repr v =
     (case v of
        JStr s \<Rightarrow> s
      | JInt i \<Rightarrow> str_int i
      | JBool b \<Rightarrow> (if b then ''True'' else ''False'')
      | JNull \<Rightarrow> ''None''
      | _ \<Rightarrow> repr v)"

text \<open>A triple-quoted literal, line by line: every line of the source text, the last
  one too, is followed by a newline.\<close>

definition newline :: char where
  "newline = CHR 0x0A"

definition text_lines :: "string list \<Rightarrow> string" where
  "text_lines ls = concat (map (\<lambda>l. l @ [newline]) ls)"

subsection \<open>The module's surroundings\<close>

record publish_request =
  TopicArn :: string
  Subject :: string
  Message :: string

text \<open>
  What the module gets from outside: the interpreter's rendering of floats, lists and
  dicts, the answer of the SNS client to a publish request (an exception or a response),
  and \<open>os.environ['TOPIC_ARN']\<close>, read once when the module is loaded.
\<close>

record env =
  repr :: "json \<Rightarrow> string"
  sns_publish :: "publish_request \<Rightarrow> py_error + json"
  TOPIC_ARN :: string

text \<open>The world outside the function: the publish requests sent so far, in order, and
  whatever else there is (the record's extension).\<close>

record world =
  published :: "publish_request list"

definition publish :: "env \<Rightarrow> publish_request \<Rightarrow> 'w world_scheme \<Rightarrow> (py_error + json) \<times> 'w world_scheme" where
  "publish e req w = (sns_publish e req, w\<lparr>published := published w @ [req]\<rparr>)"

subsection \<open>The fixed texts\<close>

definition check_mark :: string where
  "check_mark = [CHR 0xE2, CHR 0x9C, CHR 0x85]"

definition cross_mark :: string where
  "cross_mark = [CHR 0xE2, CHR 0x9D, CHR 0x8C]"

definition logs_url_prefix :: string where
  "logs_url_prefix = ''https://console.aws.amazon.com/cloudwatch/home?region=''"

definition logs_url_suffix :: string where
  "logs_url_suffix = ''#logsV2:log-groups/log-group/$252Faws$252Fbatch$252Fatx-transform''"

definition troubleshooting_url :: string where
  "troubleshooting_url =
     ''https://github.com/aws-samples/aws-transform-custom-samples/blob/main/scaled-execution-containers/docs/TROUBLESHOOTING.md''"

subsection \<open>The two f-string pairs\<close>

definition success_subject :: "string \<Rightarrow> string" where
  "success_subject job_name = check_mark @ '' AWS Transform Job Completed: '' @ job_name"

definition success_message :: "string \<Rightarrow> string \<Rightarrow> string \<Rightarrow> string \<Rightarrow> string \<Rightarrow> string \<Rightarrow> string" where
  "success_message job_name job_id status exit_code region time =
     text_lines
       [check_mark @ '' AWS Transform Job Completed Successfully'',
        '''',
        ''Job Name: '' @ job_name,
        ''Job ID: '' @ job_id,
        ''Status: '' @ status,
        ''Exit Code: '' @ exit_code,
        ''Region: '' @ region,
        ''Completed At: '' @ time,
        '''',
        ''View logs:'',
        logs_url_prefix @ region @ logs_url_suffix,
        '''',
        ''Check job status:'',
        ''aws batch describe-jobs --jobs '' @ job_id @ '' --region '' @ region]"

definition failure_subject :: "string \<Rightarrow> string" where
  "failure_subject job_name = cross_mark @ '' AWS Transform Job Failed: '' @ job_name"

definition failure_message :: "string \<Rightarrow> string \<Rightarrow> string \<Rightarrow> string \<Rightarrow> string \<Rightarrow> string \<Rightarrow> string \<Rightarrow> string" where
  "failure_message job_name job_id status exit_code status_reason region time =
     text_lines
       [cross_mark @ '' AWS Transform Job Failed'',
        '''',
        ''Job Name: '' @ job_name,
        ''Job ID: '' @ job_id,
        ''Status: '' @ status,
        ''Exit Code: '' @ exit_code,
        ''Reason: '' @ status_reason,
        ''Region: '' @ region,
        ''Failed At: '' @ time,
        '''',
        ''View logs:'',
        logs_url_prefix @ region @ logs_url_suffix,
        '''',
        ''Check job status:'',
        ''aws batch describe-jobs --jobs '' @ job_id @ '' --region '' @ region,
        '''',
        ''Troubleshooting:'',
        troubleshooting_url]"

subsection \<open>The handler\<close>

definition status_200 :: json where
  "status_200 = JObj [''statusCode'' \<mapsto> JInt 200]"

text \<open>
  One branch per statement that can raise. An exception raised before the call of
  \<open>sns.publish\<close> leaves the world as it was; an exception of the call itself is passed
  on after the request has gone out; a response of the call is dropped.
\<close>

definition handler :: "env \<Rightarrow> json \<Rightarrow> 'c \<Rightarrow> 'w world_scheme \<Rightarrow> (py_error + json) \<times> 'w world_scheme" where
  "handler e event context w =
     (case subscript event ''detail'' of Inl x \<Rightarrow> (Inl x, w) | Inr detail \<Rightarrow>
     (case subscript detail ''status'' of Inl x \<Rightarrow> (Inl x, w) | Inr status \<Rightarrow>
     (case subscript detail ''jobName'' of Inl x \<Rightarrow> (Inl x, w) | Inr job_name \<Rightarrow>
     (case subscript detail ''jobId'' of Inl x \<Rightarrow> (Inl x, w) | Inr job_id \<Rightarrow>
     (case subscript event ''region'' of Inl x \<Rightarrow> (Inl x, w) | Inr region \<Rightarrow>
     (case subscript event ''time'' of Inl x \<Rightarrow> (Inl x, w) | Inr time \<Rightarrow>
     (case dict_get detail ''container'' (JObj Map.empty) of Inl x \<Rightarrow> (Inl x, w) | Inr container \<Rightarrow>
     (case dict_get container ''exitCode'' (JStr ''N/A'') of Inl x \<Rightarrow> (Inl x, w) | Inr exit_code \<Rightarrow>
     (let f = format_value (repr e) in
     (case
        (if eq_str status ''SUCCEEDED'' then
           Inr (success_subject (f job_name),
                success_message (f job_name) (f job_id) (f status) (f exit_code) (f region) (f time))
         else
           (case dict_get detail ''statusReason'' (JStr ''Unknown'') of
              Inl x \<Rightarrow> Inl x
            | Inr status_reason \<Rightarrow>
                Inr (failure_subject (f job_name),
                     failure_message (f job_name) (f job_id) (f status) (f exit_code)
                       (f status_reason) (f region) (f time))))
      of Inl x \<Rightarrow> (Inl x, w) | Inr (subject, message) \<Rightarrow>
     (case publish e \<lparr>TopicArn = TOPIC_ARN e, Subject = subject, Message = message\<rparr> w of
        (Inl x, w') \<Rightarrow> (Inl x, w')
      | (Inr response, w') \<Rightarrow> (Inr status_200, w'))))))))))))"


subsection \<open>Describing an event\<close>

text \<open>
  The shape of the inbound event: \<open>ev\<close> is an object whose \<open>detail\<close> is the object
  \<open>d\<close>, with the five required values at their places. Other keys may be there too.
\<close>

definition event_fields :: "json \<Rightarrow> (string \<Rightarrow> json option) \<Rightarrow> json \<Rightarrow> json \<Rightarrow> json \<Rightarrow> json \<Rightarrow> json \<Rightarrow> bool" where
  "event_fields ev d status job_name job_id region time =
     (case ev of
        JObj m \<Rightarrow>
          m ''detail'' = Some (JObj d) \<and> d ''status'' = Some status \<and>
          d ''jobName'' = Some job_name \<and> d ''jobId'' = Some job_id \<and>
          m ''region'' = Some region \<and> m ''time'' = Some time
      | _ \<Rightarrow> False)"

text \<open>\<open>detail.container.exitCode\<close> is \<open>x\<close>, where \<open>None\<close> stands for a missing
  \<open>container\<close> or a missing \<open>exitCode\<close>; a \<open>container\<close> that is not an object has no
  exit code at all.\<close>

definition has_exit_code :: "(string \<Rightarrow> json option) \<Rightarrow> json option \<Rightarrow> bool" where
  "has_exit_code d x =
     (case d ''container'' of
        None \<Rightarrow> x = None
      | Some (JObj c) \<Rightarrow> c ''exitCode'' = x
      | Some _ \<Rightarrow> False)"

text \<open>An object event that lacks \<open>detail\<close>, or one of the five required values.\<close>

definition lacks_required :: "(string \<Rightarrow> json option) \<Rightarrow> bool" where
  "lacks_required m =
     (case m ''detail'' of
        None \<Rightarrow> True
      | Some (JObj d) \<Rightarrow>
          d ''status'' = None \<or> d ''jobName'' = None \<or> d ''jobId'' = None \<or>
          m ''region'' = None \<or> m ''time'' = None
      | Some _ \<Rightarrow> False)"

abbreviation fmt :: "env \<Rightarrow> json \<Rightarrow> string" where
  "fmt e \<equiv> format_value (repr e)"

text \<open>An optional value as a message shows it: its rendering, or the default text.\<close>

definition shown :: "env \<Rightarrow> string \<Rightarrow> json option \<Rightarrow> string" where
  "shown e dflt x = (case x of None \<Rightarrow> dflt | Some v \<Rightarrow> fmt e v)"

text \<open>What an invocation that gets as far as \<open>sns.publish\<close> amounts to: the request
  joins the ones sent, an exception of the call is passed on, a response is replaced by
  the fixed return value.\<close>

definition publish_and_return :: "env \<Rightarrow> publish_request \<Rightarrow> 'w world_scheme \<Rightarrow> (py_error + json) \<times> 'w world_scheme" where
  "publish_and_return e req w =
     ((case sns_publish e req of Inl x \<Rightarrow> Inl x | Inr response \<Rightarrow> Inr status_200),
      w\<lparr>published := published w @ [req]\<rparr>)"

subsection \<open>Sample inputs\<close>

definition sample_env :: env where
  "sample_env =
     \<lparr>repr = (\<lambda>v. ''?''),
      sns_publish = (\<lambda>req. Inr (JObj [''MessageId'' \<mapsto> JStr ''6f2c''])),
      TOPIC_ARN = ''arn:aws:sns:us-east-1:123456789012:atx-notifications''\<rparr>"

definition failing_env :: env where
  "failing_env = sample_env\<lparr>sns_publish := (\<lambda>req. Inl (ClientError ''Throttling''))\<rparr>"

definition sample_detail :: "json \<Rightarrow> string \<Rightarrow> json option" where
  "sample_detail status =
     [''status'' \<mapsto> status, ''jobName'' \<mapsto> JStr ''job-42'', ''jobId'' \<mapsto> JStr ''abc-123'']"

definition sample_event :: "(string \<Rightarrow> json option) \<Rightarrow> json" where
  "sample_event d =
     JObj [''region'' \<mapsto> JStr ''us-east-1'', ''time'' \<mapsto> JStr ''2024-01-01T00:00:00Z'',
           ''detail'' \<mapsto> JObj d]"

definition exit_event :: "json \<Rightarrow> int \<Rightarrow> json" where
  "exit_event status n =
     sample_event ((sample_detail status)(''container'' \<mapsto> JObj [''exitCode'' \<mapsto> JInt n]))"

definition no_calls :: world where
  "no_calls = \<lparr>published = []\<rparr>"


section \<open>Properties\<close>

subsection \<open>Texts within texts\<close>

lemma text_lines_Cons: "text_lines (l # ls) = l @ newline # text_lines ls"
  by (simp add: text_lines_def)

lemma text_lines_append: "text_lines (as @ bs) = text_lines as @ text_lines bs"
  by (simp add: text_lines_def)

lemma line_in_text:
  assumes "l \<in> set ls" and "s = l @ [newline]"
  shows "sublist s (text_lines ls)"
proof -
  from assms(1) obtain as bs where "ls = as @ l # bs"
    by (auto simp: in_set_conv_decomp)
  then have "text_lines ls = text_lines as @ s @ text_lines bs"
    by (simp add: text_lines_append text_lines_Cons assms(2))
  then show ?thesis
    by (simp only: sublist_appendI)
qed

lemma sublist_trans: "sublist a b \<Longrightarrow> sublist b c \<Longrightarrow> sublist a c"
  by (rule sublist_order.order_trans)






subsection \<open>Rendering\<close>

lemma format_value_JStr: "format_value r (JStr s) = s"
  by (simp add: format_value_def)

lemma format_value_JInt: "format_value r (JInt i) = str_int i"
  by (simp add: format_value_def)

text \<open>The digits \<open>str_int\<close> writes are the decimal numeral of the number.\<close>

lemma digit_cases:
  assumes "k < (10::nat)"
  shows "k = 0 \<or> k = 1 \<or> k = 2 \<or> k = 3 \<or> k = 4 \<or> k = 5 \<or> k = 6 \<or> k = 7 \<or> k = 8 \<or> k = 9"
  using assms by arith

lemma digit_of_digit_char:
  assumes "k < 10"
  shows "digit_of (digit_char k) = Some k"
  using digit_cases [OF assms] by (elim disjE) (simp_all add: digit_char_def digit_of_def)

lemma digit_char_zero:
  assumes "k < 10"
  shows "digit_char k = CHR ''0'' \<longleftrightarrow> k = 0"
  using digit_cases [OF assms] by (elim disjE) (simp_all add: digit_char_def)

lemma digit_char_not_minus:
  assumes "k < 10"
  shows "digit_char k \<noteq> CHR ''-''"
  using digit_cases [OF assms] by (elim disjE) (simp_all add: digit_char_def)

lemma read_digits_append:
  "read_digits a (xs @ ys) =
     (case read_digits a xs of None \<Rightarrow> None | Some b \<Rightarrow> read_digits b ys)"
  by (induction xs arbitrary: a) (simp_all split: option.splits)

lemma read_digits_str_nat: "read_digits 0 (str_nat n) = Some n"
proof (induction n rule: str_nat.induct)
  case (1 n)
  show ?case
  proof (cases "n < 10")
    case True
    then show ?thesis
      by (simp add: str_nat.simps [of n] digit_of_digit_char)
  next
    case False
    with 1 have "read_digits 0 (str_nat (n div 10)) = Some (n div 10)"
      by simp
    with False show ?thesis
      by (simp add: str_nat.simps [of n] read_digits_append digit_of_digit_char)
  qed
qed

lemma str_nat_shape:
  "\<exists>c cs. str_nat n = c # cs \<and> (c = CHR ''0'' \<longleftrightarrow> n = 0) \<and> c \<noteq> CHR ''-'' \<and> (cs = [] \<longleftrightarrow> n < 10)"
proof (induction n rule: str_nat.induct)
  case (1 n)
  show ?case
  proof (cases "n < 10")
    case True
    then show ?thesis
      by (simp add: str_nat.simps [of n] digit_char_zero digit_char_not_minus)
  next
    case False
    from 1 [OF False] obtain c cs
      where "str_nat (n div 10) = c # cs" "c = CHR ''0'' \<longleftrightarrow> n div 10 = 0"
        "c \<noteq> CHR ''-''"
      by (elim exE conjE) (rule that; assumption)
    with False show ?thesis
      by (simp add: str_nat.simps [of n])
  qed
qed

lemma read_nat_str_nat: "read_nat (str_nat n) = Some n"
proof -
  from str_nat_shape [of n] obtain c cs
    where s: "str_nat n = c # cs" "c = CHR ''0'' \<longleftrightarrow> n = 0" "cs = [] \<longleftrightarrow> n < 10"
    by (elim exE conjE) (rule that; assumption)
  show ?thesis
  proof (cases cs)
    case Nil
    with s have "n < 10" by simp
    then have "str_nat n = [digit_char n]" by (simp add: str_nat.simps [of n])
    with \<open>n < 10\<close> show ?thesis
      by (simp add: read_nat_def digit_of_digit_char)
  next
    case (Cons c' cs')
    with s have "c \<noteq> CHR ''0''" by auto
    with s(1) Cons read_digits_str_nat [of n] show ?thesis
      by (simp add: read_nat_def del: read_digits.simps)
  qed
qed

lemma read_int_str_int: "read_int (str_int i) = Some i"
proof (cases "i < 0")
  case True
  then have "nat (- i) \<noteq> 0" by simp
  with True show ?thesis
    by (simp add: read_int_def str_int_def read_nat_str_nat)
next
  case False
  from str_nat_shape [of "nat i"] obtain c cs
    where s: "str_nat (nat i) = c # cs" "c \<noteq> CHR ''-''"
    by (elim exE conjE) (rule that; assumption)
  from False have "str_int i = str_nat (nat i)"
    by (simp add: str_int_def)
  with s read_nat_str_nat [of "nat i"] False show ?thesis
    by (simp add: read_int_def)
qed

subsection \<open>Running the handler on a well-shaped event\<close>

lemma exit_code_resolved:
  assumes "has_exit_code d x"
  shows "\<exists>container. dict_get (JObj d) ''container'' (JObj Map.empty) = Inr container \<and>
           (\<exists>exit_code. dict_get container ''exitCode'' (JStr ''N/A'') = Inr exit_code \<and>
              fmt e exit_code = shown e ''N/A'' x)"
  using assms
  by (auto simp: has_exit_code_def dict_get_def shown_def format_value_JStr
           split: option.splits json.splits)

lemma event_fieldsD:
  assumes "event_fields ev d status job_name job_id region time"
  shows "\<exists>m. ev = JObj m \<and> subscript (JObj m) ''detail'' = Inr (JObj d) \<and>
           subscript (JObj d) ''status'' = Inr status \<and>
           subscript (JObj d) ''jobName'' = Inr job_name \<and>
           subscript (JObj d) ''jobId'' = Inr job_id \<and>
           subscript (JObj m) ''region'' = Inr region \<and>
           subscript (JObj m) ''time'' = Inr time"
  using assms by (auto simp: event_fields_def subscript_def split: json.splits)

lemma handler_succeeded:
  assumes "event_fields ev d (JStr ''SUCCEEDED'') job_name job_id region time"
    and "has_exit_code d x"
  shows "handler e ev ctx w =
           publish_and_return e
             \<lparr>TopicArn = TOPIC_ARN e,
              Subject = success_subject (fmt e job_name),
              Message = success_message (fmt e job_name) (fmt e job_id) ''SUCCEEDED''
                          (shown e ''N/A'' x) (fmt e region) (fmt e time)\<rparr> w"
proof -
  obtain m where ev: "ev = JObj m"
    and m: "subscript (JObj m) ''detail'' = Inr (JObj d)"
      "subscript (JObj d) ''status'' = Inr (JStr ''SUCCEEDED'')"
      "subscript (JObj d) ''jobName'' = Inr job_name"
      "subscript (JObj d) ''jobId'' = Inr job_id"
      "subscript (JObj m) ''region'' = Inr region"
      "subscript (JObj m) ''time'' = Inr time"
    using event_fieldsD [OF assms(1)] by blast
  obtain container exit_code
    where c: "dict_get (JObj d) ''container'' (JObj Map.empty) = Inr container"
      "dict_get container ''exitCode'' (JStr ''N/A'') = Inr exit_code"
      "fmt e exit_code = shown e ''N/A'' x"
    using exit_code_resolved [OF assms(2)] by blast
  show ?thesis
    unfolding handler_def ev
    by (simp add: m c eq_str_def publish_def publish_and_return_def format_value_JStr Let_def
             split: sum.splits)
qed

lemma handler_failed:
  assumes "event_fields ev d status job_name job_id region time"
    and "has_exit_code d x" and "status \<noteq> JStr ''SUCCEEDED''"
  shows "handler e ev ctx w =
           publish_and_return e
             \<lparr>TopicArn = TOPIC_ARN e,
              Subject = failure_subject (fmt e job_name),
              Message = failure_message (fmt e job_name) (fmt e job_id) (fmt e status)
                          (shown e ''N/A'' x) (shown e ''Unknown'' (d ''statusReason''))
                          (fmt e region) (fmt e time)\<rparr> w"
proof -
  obtain m where ev: "ev = JObj m"
    and m: "subscript (JObj m) ''detail'' = Inr (JObj d)"
      "subscript (JObj d) ''status'' = Inr status"
      "subscript (JObj d) ''jobName'' = Inr job_name"
      "subscript (JObj d) ''jobId'' = Inr job_id"
      "subscript (JObj m) ''region'' = Inr region"
      "subscript (JObj m) ''time'' = Inr time"
    using event_fieldsD [OF assms(1)] by blast
  obtain container exit_code
    where c: "dict_get (JObj d) ''container'' (JObj Map.empty) = Inr container"
      "dict_get container ''exitCode'' (JStr ''N/A'') = Inr exit_code"
      "fmt e exit_code = shown e ''N/A'' x"
    using exit_code_resolved [OF assms(2)] by blast
  have s: "\<not> eq_str status ''SUCCEEDED''"
    using assms(3) by (auto simp: eq_str_def split: json.splits)
  have r: "dict_get (JObj d) ''statusReason'' (JStr ''Unknown'') = Inr sr \<Longrightarrow>
             fmt e sr = shown e ''Unknown'' (d ''statusReason'')" for sr
    by (auto simp: dict_get_def shown_def format_value_JStr split: option.splits)
  have r': "\<exists>sr. dict_get (JObj d) ''statusReason'' (JStr ''Unknown'') = Inr sr"
    by (simp add: dict_get_def)
  then obtain sr where sr: "dict_get (JObj d) ''statusReason'' (JStr ''Unknown'') = Inr sr"
    by blast
  show ?thesis
    unfolding handler_def ev
    by (simp add: m c s sr r [OF sr] publish_def publish_and_return_def Let_def split: sum.splits)
qed


subsection \<open>Lines of the two messages\<close>




lemma success_exit_code:
  "sublist (''Exit Code: '' @ ec @ [newline]) (success_message jn ji st ec rg tm)"
  unfolding success_message_def
  by (rule line_in_text [where l = "''Exit Code: '' @ ec"])
     (blast intro: list.set_intros, simp only: append_assoc)



lemma success_logs_url:
  "sublist (logs_url_prefix @ rg @ logs_url_suffix @ [newline]) (success_message jn ji st ec rg tm)"
  unfolding success_message_def
  by (rule line_in_text [where l = "logs_url_prefix @ rg @ logs_url_suffix"])
     (blast intro: list.set_intros, simp only: append_assoc)


subsection \<open>Where the troubleshooting link can be\<close>











subsection \<open>A job that succeeded\<close>




subsection \<open>Lines of the failure message\<close>




lemma failure_exit_code:
  "sublist (''Exit Code: '' @ ec @ [newline]) (failure_message jn ji st ec sr rg tm)"
  unfolding failure_message_def
  by (rule line_in_text [where l = "''Exit Code: '' @ ec"])
     (blast intro: list.set_intros, simp only: append_assoc)




lemma failure_logs_url:
  "sublist (logs_url_prefix @ rg @ logs_url_suffix @ [newline]) (failure_message jn ji st ec sr rg tm)"
  unfolding failure_message_def
  by (rule line_in_text [where l = "logs_url_prefix @ rg @ logs_url_suffix"])
     (blast intro: list.set_intros, simp only: append_assoc)








subsection \<open>A job that did not succeed\<close>





subsection \<open>Either path\<close>

lemma handler_sends:
  assumes "event_fields ev d status job_name job_id region time"
    and "has_exit_code d x"
  shows "\<exists>subject message.
           handler e ev ctx w =
             publish_and_return e \<lparr>TopicArn = TOPIC_ARN e, Subject = subject, Message = message\<rparr> w \<and>
           sublist (''Exit Code: '' @ shown e ''N/A'' x @ [newline]) message \<and>
           sublist (logs_url_prefix @ fmt e region @ logs_url_suffix @ [newline]) message"
proof (cases "status = JStr ''SUCCEEDED''")
  case True
  with assms(1) have "event_fields ev d (JStr ''SUCCEEDED'') job_name job_id region time"
    by simp
  then show ?thesis
    by (intro exI conjI)
       (rule handler_succeeded [OF _ assms(2)], assumption, rule success_exit_code,
        rule success_logs_url)
next
  case False
  show ?thesis
    by (intro exI conjI)
       (rule handler_failed [OF assms False], rule failure_exit_code, rule failure_logs_url)
qed

lemma publish_and_return_parts:
  "snd (publish_and_return e req w) = w\<lparr>published := published w @ [req]\<rparr>"
  "published (snd (publish_and_return e req w)) = published w @ [req]"
  "fst (publish_and_return e req w) =
     (case sns_publish e req of Inl err \<Rightarrow> Inl err | Inr response \<Rightarrow> Inr status_200)"
  by (simp_all add: publish_and_return_def)

subsection \<open>Events that lack a required value\<close>

text \<open>
  C3. When an object event has no \<open>detail\<close>, or its \<open>detail\<close> object has no \<open>status\<close>,
  \<open>jobName\<close> or \<open>jobId\<close>, or the event has no \<open>region\<close> or \<open>time\<close>, the handler raises
  KeyError for one of these keys, and the world is as before: nothing was published.
\<close>

theorem missing_required_field:
  assumes "lacks_required m"
  shows "\<exists>k \<in> set [''detail'', ''status'', ''jobName'', ''jobId'', ''region'', ''time''].
           handler e (JObj m) ctx w = (Inl (KeyError k), w)"
proof -
  consider (no_detail) "m ''detail'' = None"
    | (detail) d where "m ''detail'' = Some (JObj d)"
        "d ''status'' = None \<or> d ''jobName'' = None \<or> d ''jobId'' = None \<or>
         m ''region'' = None \<or> m ''time'' = None"
    using assms by (auto simp: lacks_required_def split: option.splits json.splits)
  then have "\<exists>k. k \<in> set [''detail'', ''status'', ''jobName'', ''jobId'', ''region'', ''time''] \<and>
               handler e (JObj m) ctx w = (Inl (KeyError k), w)"
  proof cases
    case no_detail
    then have "handler e (JObj m) ctx w = (Inl (KeyError ''detail''), w)"
      by (simp add: handler_def subscript_def)
    then show ?thesis by (intro exI [where x = "''detail''"]) simp
  next
    case detail
    show ?thesis
    proof (cases "d ''status''")
      case None
      with detail(1) have "handler e (JObj m) ctx w = (Inl (KeyError ''status''), w)"
        by (simp add: handler_def subscript_def)
      then show ?thesis by (intro exI [where x = "''status''"]) simp
    next
      case status: (Some status)
      show ?thesis
      proof (cases "d ''jobName''")
        case None
        with detail(1) status have "handler e (JObj m) ctx w = (Inl (KeyError ''jobName''), w)"
          by (simp add: handler_def subscript_def)
        then show ?thesis by (intro exI [where x = "''jobName''"]) simp
      next
        case name: (Some job_name)
        show ?thesis
        proof (cases "d ''jobId''")
          case None
          with detail(1) status name
          have "handler e (JObj m) ctx w = (Inl (KeyError ''jobId''), w)"
            by (simp add: handler_def subscript_def)
          then show ?thesis by (intro exI [where x = "''jobId''"]) simp
        next
          case id: (Some job_id)
          show ?thesis
          proof (cases "m ''region''")
            case None
            with detail(1) status name id
            have "handler e (JObj m) ctx w = (Inl (KeyError ''region''), w)"
              by (simp add: handler_def subscript_def)
            then show ?thesis by (intro exI [where x = "''region''"]) simp
          next
            case region: (Some region)
            with detail(2) status name id have "m ''time'' = None"
              by simp
            with detail(1) status name id region
            have "handler e (JObj m) ctx w = (Inl (KeyError ''time''), w)"
              by (simp add: handler_def subscript_def)
            then show ?thesis by (intro exI [where x = "''time''"]) simp
          qed
        qed
      qed
    qed
  qed
  then show ?thesis by blast
qed

theorem missing_required_field_witness:
  "\<exists>k \<in> set [''detail'', ''status'', ''jobName'', ''jobId'', ''region'', ''time''].
     handler sample_env
       (JObj [''region'' \<mapsto> JStr ''us-east-1'', ''time'' \<mapsto> JStr ''2024-01-01T00:00:00Z'',
              ''detail'' \<mapsto> JObj [''status'' \<mapsto> JStr ''SUCCEEDED'', ''jobId'' \<mapsto> JStr ''abc-123'']])
       () no_calls = (Inl (KeyError k), no_calls)"
  by (rule missing_required_field) (simp add: lacks_required_def)

subsection \<open>One publish call\<close>

text \<open>
  C4. For a well-formed event (the required values present, \<open>container\<close> absent or an
  object), whatever the status, the world after the handler is the world before it with
  one more publish request, addressed to the configured topic; nothing else in the world
  has changed.
\<close>

theorem one_publish_call:
  assumes "event_fields ev d status job_name job_id region time"
    and "has_exit_code d x"
  shows "\<exists>req. snd (handler e ev ctx w) = w\<lparr>published := published w @ [req]\<rparr> \<and>
           TopicArn req = TOPIC_ARN e"
proof -
  from handler_sends [OF assms, where e = e and ctx = ctx and w = w] obtain subject message
    where "handler e ev ctx w =
             publish_and_return e \<lparr>TopicArn = TOPIC_ARN e, Subject = subject, Message = message\<rparr> w"
    by blast
  then show ?thesis
    by (intro exI [where x = "\<lparr>TopicArn = TOPIC_ARN e, Subject = subject, Message = message\<rparr>"])
       (simp add: publish_and_return_parts)
qed

theorem one_publish_call_witness:
  "(\<exists>req. snd (handler sample_env (sample_event (sample_detail (JStr ''SUCCEEDED''))) () no_calls) =
            \<lparr>published = [req]\<rparr> \<and>
          TopicArn req = ''arn:aws:sns:us-east-1:123456789012:atx-notifications'') \<and>
   (\<exists>req. snd (handler sample_env (sample_event (sample_detail (JStr ''FAILED''))) () no_calls) =
            \<lparr>published = [req]\<rparr> \<and>
          TopicArn req = ''arn:aws:sns:us-east-1:123456789012:atx-notifications'')"
proof -
  have fields: "event_fields (sample_event (sample_detail s)) (sample_detail s) s (JStr ''job-42'')
                  (JStr ''abc-123'') (JStr ''us-east-1'') (JStr ''2024-01-01T00:00:00Z'')" for s
    by (simp add: event_fields_def sample_event_def sample_detail_def)
  have code: "has_exit_code (sample_detail s) None" for s
    by (simp add: has_exit_code_def sample_detail_def)
  have start: "no_calls\<lparr>published := published no_calls @ [req]\<rparr> = \<lparr>published = [req]\<rparr>" for req
    by (simp add: no_calls_def)
  have topic: "TOPIC_ARN sample_env = ''arn:aws:sns:us-east-1:123456789012:atx-notifications''"
    by (simp add: sample_env_def)
  show ?thesis
    using one_publish_call [OF fields code, where e = sample_env and ctx = "()" and w = no_calls]
    unfolding start topic by blast
qed

subsection \<open>The return value\<close>

text \<open>
  C5. For a well-formed event the handler's outcome is decided by the publish call alone:
  an exception of the call is the handler's exception, and any response at all gives the
  return value \<open>{'statusCode': 200}\<close>; the response itself is not looked at.
\<close>

theorem returns_200_after_publish:
  assumes "event_fields ev d status job_name job_id region time"
    and "has_exit_code d x"
  shows "\<exists>req. published (snd (handler e ev ctx w)) = published w @ [req] \<and>
           fst (handler e ev ctx w) =
             (case sns_publish e req of Inl err \<Rightarrow> Inl err | Inr response \<Rightarrow> Inr status_200)"
proof -
  from handler_sends [OF assms, where e = e and ctx = ctx and w = w] obtain subject message
    where "handler e ev ctx w =
             publish_and_return e \<lparr>TopicArn = TOPIC_ARN e, Subject = subject, Message = message\<rparr> w"
    by blast
  then show ?thesis
    by (intro exI [where x = "\<lparr>TopicArn = TOPIC_ARN e, Subject = subject, Message = message\<rparr>"])
       (simp add: publish_and_return_parts)
qed

theorem returns_200_after_publish_witness:
  "fst (handler sample_env (sample_event (sample_detail (JStr ''SUCCEEDED''))) () no_calls) =
     Inr (JObj [''statusCode'' \<mapsto> JInt 200]) \<and>
   fst (handler failing_env (sample_event (sample_detail (JStr ''SUCCEEDED''))) () no_calls) =
     Inl (ClientError ''Throttling'')"
proof -
  let ?d = "sample_detail (JStr ''SUCCEEDED'')"
  have fields: "event_fields (sample_event ?d) ?d (JStr ''SUCCEEDED'') (JStr ''job-42'')
                  (JStr ''abc-123'') (JStr ''us-east-1'') (JStr ''2024-01-01T00:00:00Z'')"
    by (simp add: event_fields_def sample_event_def sample_detail_def)
  have code: "has_exit_code ?d None"
    by (simp add: has_exit_code_def sample_detail_def)
  have answers: "sns_publish sample_env req = Inr (JObj [''MessageId'' \<mapsto> JStr ''6f2c''])"
    "sns_publish failing_env req = Inl (ClientError ''Throttling'')" for req
    by (simp_all add: sample_env_def failing_env_def)
  show ?thesis
    using returns_200_after_publish [OF fields code, where e = sample_env and ctx = "()" and w = no_calls]
      returns_200_after_publish [OF fields code, where e = failing_env and ctx = "()" and w = no_calls]
    unfolding answers by (auto simp: status_200_def)
qed

subsection \<open>The exit code\<close>

text \<open>
  C7. For a well-formed event, on either path: when \<open>detail.container.exitCode\<close> is absent
  (no \<open>container\<close>, or a \<open>container\<close> without \<open>exitCode\<close>) the message has the line
  \<open>Exit Code: N/A\<close>; when it is the integer \<open>n\<close> the line is \<open>Exit Code:\<close> followed by the
  decimal numeral of \<open>n\<close>, that is, by a text that \<open>read_int\<close> reads back as \<open>n\<close>.
\<close>

theorem exit_code_line:
  assumes "event_fields ev d status job_name job_id region time"
    and "has_exit_code d x"
  shows "\<exists>req. published (snd (handler e ev ctx w)) = published w @ [req] \<and>
           (x = None \<longrightarrow> sublist (''Exit Code: N/A'' @ [newline]) (Message req)) \<and>
           (\<forall>n. x = Some (JInt n) \<longrightarrow>
                sublist (''Exit Code: '' @ str_int n @ [newline]) (Message req) \<and>
                read_int (str_int n) = Some n)"
proof -
  from handler_sends [OF assms, where e = e and ctx = ctx and w = w]
  obtain subject message
    where run: "handler e ev ctx w =
             publish_and_return e \<lparr>TopicArn = TOPIC_ARN e, Subject = subject, Message = message\<rparr> w"
      and line: "sublist (''Exit Code: '' @ shown e ''N/A'' x @ [newline]) message"
    by (elim exE conjE)
  have absent: "sublist (''Exit Code: N/A'' @ [newline]) message" if "x = None"
    using line unfolding that shown_def option.case by (simp only: append.simps)
  have present: "sublist (''Exit Code: '' @ str_int n @ [newline]) message"
    if "x = Some (JInt n)" for n
    using line unfolding that shown_def option.case format_value_JInt .
  let ?req = "\<lparr>TopicArn = TOPIC_ARN e, Subject = subject, Message = message\<rparr>"
  have sent: "published (snd (handler e ev ctx w)) = published w @ [?req]"
    by (simp add: run publish_and_return_parts)
  have sel: "Message ?req = message"
    by (simp only: publish_request.select_convs)
  show ?thesis
    by (rule exI [where x = ?req], simp only: sel, intro conjI allI impI)
       (rule sent read_int_str_int | erule absent | erule present)+
qed

theorem exit_code_line_witness:
  "(\<exists>req. published (snd (handler sample_env (exit_event (JStr ''SUCCEEDED'') 0) () no_calls)) = [req] \<and>
          sublist (''Exit Code: 0'' @ [newline]) (Message req)) \<and>
   (\<exists>req. published (snd (handler sample_env (exit_event (JStr ''FAILED'') 1) () no_calls)) = [req] \<and>
          sublist (''Exit Code: 1'' @ [newline]) (Message req)) \<and>
   (\<exists>req. published (snd (handler sample_env (exit_event (JStr ''FAILED'') 137) () no_calls)) = [req] \<and>
          sublist (''Exit Code: 137'' @ [newline]) (Message req)) \<and>
   (\<exists>req. published (snd (handler sample_env (exit_event (JStr ''FAILED'') 255) () no_calls)) = [req] \<and>
          sublist (''Exit Code: 255'' @ [newline]) (Message req)) \<and>
   (\<exists>req. published (snd (handler sample_env (exit_event (JStr ''FAILED'') (- 1)) () no_calls)) = [req] \<and>
          sublist (''Exit Code: -1'' @ [newline]) (Message req)) \<and>
   (\<exists>req. published (snd (handler sample_env
                 (sample_event ((sample_detail (JStr ''SUCCEEDED''))(''container'' \<mapsto> JObj Map.empty)))
                 () no_calls)) = [req] \<and>
          sublist (''Exit Code: N/A'' @ [newline]) (Message req)) \<and>
   (\<exists>req. published (snd (handler sample_env (sample_event (sample_detail (JStr ''FAILED'')))
                 () no_calls)) = [req] \<and>
          sublist (''Exit Code: N/A'' @ [newline]) (Message req))"
proof -
  have start: "published no_calls @ [req] = [req]" for req
    by (simp add: no_calls_def)
  have number: "\<exists>req. published (snd (handler sample_env (exit_event s n) () no_calls)) = [req] \<and>
                  sublist (''Exit Code: '' @ str_int n @ [newline]) (Message req)" for s n
  proof -
    let ?d = "(sample_detail s)(''container'' \<mapsto> JObj [''exitCode'' \<mapsto> JInt n])"
    have fields: "event_fields (exit_event s n) ?d s (JStr ''job-42'')
                  (JStr ''abc-123'') (JStr ''us-east-1'') (JStr ''2024-01-01T00:00:00Z'')"
      by (simp add: event_fields_def exit_event_def sample_event_def sample_detail_def)
    have code: "has_exit_code ?d (Some (JInt n))"
      by (simp add: has_exit_code_def)
    from exit_code_line [OF fields code, where e = sample_env and ctx = "()" and w = no_calls]
    obtain req
      where "published (snd (handler sample_env (exit_event s n) () no_calls)) = [req]"
        and "\<forall>k. Some (JInt n) = Some (JInt k) \<longrightarrow>
                 sublist (''Exit Code: '' @ str_int k @ [newline]) (Message req) \<and>
                 read_int (str_int k) = Some k"
      unfolding start by (elim exE conjE) (rule that; assumption)
    then show ?thesis
      by (intro exI [where x = req]) simp
  qed
  have digits: "str_int 0 = ''0''" "str_int 1 = ''1''" "str_int 137 = ''137''"
    "str_int 255 = ''255''" "str_int (- 1) = ''-1''"
    by code_simp+
  have shape: "event_fields (sample_event ((sample_detail s)(''container'' \<mapsto> JObj Map.empty)))
                 ((sample_detail s)(''container'' \<mapsto> JObj Map.empty)) s (JStr ''job-42'')
                 (JStr ''abc-123'') (JStr ''us-east-1'') (JStr ''2024-01-01T00:00:00Z'')"
    "has_exit_code ((sample_detail s)(''container'' \<mapsto> JObj Map.empty)) None"
    "event_fields (sample_event (sample_detail s)) (sample_detail s) s (JStr ''job-42'')
       (JStr ''abc-123'') (JStr ''us-east-1'') (JStr ''2024-01-01T00:00:00Z'')"
    "has_exit_code (sample_detail s) None" for s
    by (simp_all add: event_fields_def sample_event_def sample_detail_def has_exit_code_def)
  have a: "\<exists>req. published (snd (handler sample_env
                 (sample_event ((sample_detail (JStr ''SUCCEEDED''))(''container'' \<mapsto> JObj Map.empty)))
                 () no_calls)) = [req] \<and>
          sublist (''Exit Code: N/A'' @ [newline]) (Message req)"
  proof -
    from exit_code_line [OF shape(1,2) [where s = "JStr ''SUCCEEDED''"],
           where e = sample_env and ctx = "()" and w = no_calls]
    obtain req
      where "published (snd (handler sample_env
                 (sample_event ((sample_detail (JStr ''SUCCEEDED''))(''container'' \<mapsto> JObj Map.empty)))
                 () no_calls)) = [req]"
        and "(None :: json option) = None \<longrightarrow> sublist (''Exit Code: N/A'' @ [newline]) (Message req)"
      unfolding start by (elim exE conjE) (rule that; assumption)
    then show ?thesis
      by (intro exI [where x = req]) simp
  qed
  have b: "\<exists>req. published (snd (handler sample_env (sample_event (sample_detail (JStr ''FAILED'')))
                 () no_calls)) = [req] \<and>
          sublist (''Exit Code: N/A'' @ [newline]) (Message req)"
  proof -
    from exit_code_line [OF shape(3,4) [where s = "JStr ''FAILED''"],
           where e = sample_env and ctx = "()" and w = no_calls]
    obtain req
      where "published (snd (handler sample_env (sample_event (sample_detail (JStr ''FAILED'')))
                 () no_calls)) = [req]"
        and "(None :: json option) = None \<longrightarrow> sublist (''Exit Code: N/A'' @ [newline]) (Message req)"
      unfolding start by (elim exE conjE) (rule that; assumption)
    then show ?thesis
      by (intro exI [where x = req]) simp
  qed
  note n = number [of "JStr ''SUCCEEDED''" 0, unfolded digits]
    number [of "JStr ''FAILED''" 1, unfolded digits]
    number [of "JStr ''FAILED''" 137, unfolded digits]
    number [of "JStr ''FAILED''" 255, unfolded digits]
    number [of "JStr ''FAILED''" "- 1", unfolded digits]
  show ?thesis
    by (simp only: append.simps, intro conjI)
       (rule n [unfolded append.simps] a [unfolded append.simps] b [unfolded append.simps])+
qed

subsection \<open>The link to the logs\<close>

text \<open>
  C8. For a well-formed event, on either path, the message has a line made of the fixed
  console address up to \<open>region=\<close>, the rendering of the event's region (for a str, the str
  itself, unchanged), and the fixed fragment with the log group
  \<open>$252Faws$252Fbatch$252Fatx-transform\<close>.
\<close>

theorem logs_link:
  assumes "event_fields ev d status job_name job_id region time"
    and "has_exit_code d x"
  shows "\<exists>req. published (snd (handler e ev ctx w)) = published w @ [req] \<and>
           sublist (''https://console.aws.amazon.com/cloudwatch/home?region='' @ fmt e region @
                    ''#logsV2:log-groups/log-group/$252Faws$252Fbatch$252Fatx-transform'' @
                    [newline]) (Message req) \<and>
           (\<forall>r. region = JStr r \<longrightarrow>
              sublist (''https://console.aws.amazon.com/cloudwatch/home?region='' @ r @
                       ''#logsV2:log-groups/log-group/$252Faws$252Fbatch$252Fatx-transform'')
                (Message req))"
proof -
  from handler_sends [OF assms, where e = e and ctx = ctx and w = w]
  obtain subject message
    where run: "handler e ev ctx w =
             publish_and_return e \<lparr>TopicArn = TOPIC_ARN e, Subject = subject, Message = message\<rparr> w"
      and line: "sublist (logs_url_prefix @ fmt e region @ logs_url_suffix @ [newline]) message"
    by (elim exE conjE)
  let ?a = "''https://console.aws.amazon.com/cloudwatch/home?region=''"
  let ?b = "''#logsV2:log-groups/log-group/$252Faws$252Fbatch$252Fatx-transform''"
  have full: "sublist (?a @ fmt e region @ ?b @ [newline]) message"
    using line unfolding logs_url_prefix_def logs_url_suffix_def .
  have verbatim: "sublist (?a @ r @ ?b) message" if "region = JStr r" for r
  proof -
    have "sublist (?a @ r @ ?b) ((?a @ r @ ?b) @ [newline])"
      by (rule sublist_append_rightI)
    then have "sublist (?a @ r @ ?b) (?a @ fmt e region @ ?b @ [newline])"
      unfolding that format_value_JStr by (simp only: append_assoc)
    then show ?thesis using full by (rule sublist_trans)
  qed
  let ?req = "\<lparr>TopicArn = TOPIC_ARN e, Subject = subject, Message = message\<rparr>"
  have sent: "published (snd (handler e ev ctx w)) = published w @ [?req]"
    by (simp add: run publish_and_return_parts)
  have sel: "Message ?req = message"
    by (simp only: publish_request.select_convs)
  show ?thesis
    by (rule exI [where x = ?req], simp only: sel, intro conjI allI impI)
       (rule sent full | erule verbatim)+
qed

theorem logs_link_witness:
  "\<exists>req. published (snd (handler sample_env (sample_event (sample_detail (JStr ''SUCCEEDED'')))
                           () no_calls)) = [req] \<and>
         sublist ''https://console.aws.amazon.com/cloudwatch/home?region=us-east-1#logsV2:log-groups/log-group/$252Faws$252Fbatch$252Fatx-transform''
           (Message req)"
proof -
  let ?d = "sample_detail (JStr ''SUCCEEDED'')"
  have fields: "event_fields (sample_event ?d) ?d (JStr ''SUCCEEDED'') (JStr ''job-42'')
                  (JStr ''abc-123'') (JStr ''us-east-1'') (JStr ''2024-01-01T00:00:00Z'')"
    by (simp add: event_fields_def sample_event_def sample_detail_def)
  have code: "has_exit_code ?d None"
    by (simp add: has_exit_code_def sample_detail_def)
  have start: "published no_calls @ [req] = [req]" for req
    by (simp add: no_calls_def)
  from logs_link [OF fields code, where e = sample_env and ctx = "()" and w = no_calls]
  obtain req where "published (snd (handler sample_env (sample_event ?d) () no_calls)) = [req]"
    and "sublist (''https://console.aws.amazon.com/cloudwatch/home?region='' @ ''us-east-1'' @
                  ''#logsV2:log-groups/log-group/$252Faws$252Fbatch$252Fatx-transform'')
           (Message req)"
    unfolding start by blast
  then show ?thesis
    by (simp only: append.simps) blast
qed

subsection \<open>An event without a container\<close>

text \<open>
  C9. When \<open>detail\<close> has no \<open>container\<close> key at all, the two nested \<open>get\<close> calls raise
  nothing: the first gives the empty dict, the second \<open>N/A\<close>. The handler gets as far as
  publishing, its outcome is that of the publish call, and the message has the line
  \<open>Exit Code: N/A\<close>.
\<close>

theorem no_container:
  assumes "event_fields ev d status job_name job_id region time"
    and "d ''container'' = None"
  shows "dict_get (JObj d) ''container'' (JObj Map.empty) = Inr (JObj Map.empty) \<and>
         dict_get (JObj Map.empty) ''exitCode'' (JStr ''N/A'') = Inr (JStr ''N/A'') \<and>
         (\<exists>req. handler e ev ctx w =
                  ((case sns_publish e req of Inl err \<Rightarrow> Inl err | Inr response \<Rightarrow> Inr status_200),
                   w\<lparr>published := published w @ [req]\<rparr>) \<and>
                sublist (''Exit Code: N/A'' @ [newline]) (Message req))"
proof -
  have first: "dict_get (JObj d) ''container'' (JObj Map.empty) = Inr (JObj Map.empty)"
    by (simp add: dict_get_def assms(2))
  have second: "dict_get (JObj Map.empty) ''exitCode'' (JStr ''N/A'') = Inr (JStr ''N/A'')"
    by (simp add: dict_get_def)
  have "has_exit_code d None"
    by (simp add: has_exit_code_def assms(2))
  from handler_sends [OF assms(1) this, where e = e and ctx = ctx and w = w]
  obtain subject message
    where run: "handler e ev ctx w =
             publish_and_return e \<lparr>TopicArn = TOPIC_ARN e, Subject = subject, Message = message\<rparr> w"
      and line: "sublist (''Exit Code: '' @ shown e ''N/A'' None @ [newline]) message"
    by (elim exE conjE)
  let ?req = "\<lparr>TopicArn = TOPIC_ARN e, Subject = subject, Message = message\<rparr>"
  have na: "sublist (''Exit Code: N/A'' @ [newline]) (Message ?req)"
    using line unfolding shown_def option.case publish_request.select_convs
    by (simp only: append.simps)
  have run': "handler e ev ctx w =
           ((case sns_publish e ?req of Inl err \<Rightarrow> Inl err | Inr response \<Rightarrow> Inr status_200),
            w\<lparr>published := published w @ [?req]\<rparr>)"
    unfolding run publish_and_return_def ..
  from run' na have "\<exists>req. handler e ev ctx w =
                  ((case sns_publish e req of Inl err \<Rightarrow> Inl err | Inr response \<Rightarrow> Inr status_200),
                   w\<lparr>published := published w @ [req]\<rparr>) \<and>
                sublist (''Exit Code: N/A'' @ [newline]) (Message req)"
    by (intro exI [where x = ?req] conjI)
  with first second show ?thesis by (intro conjI)
qed

theorem no_container_witness:
  "\<exists>req. handler sample_env (sample_event (sample_detail (JStr ''FAILED''))) () no_calls =
           (Inr status_200, \<lparr>published = [req]\<rparr>) \<and>
         sublist (''Exit Code: N/A'' @ [newline]) (Message req)"
proof -
  let ?d = "sample_detail (JStr ''FAILED'')"
  have fields: "event_fields (sample_event ?d) ?d (JStr ''FAILED'') (JStr ''job-42'')
                  (JStr ''abc-123'') (JStr ''us-east-1'') (JStr ''2024-01-01T00:00:00Z'')"
    by (simp add: event_fields_def sample_event_def sample_detail_def)
  have none: "?d ''container'' = None"
    by (simp add: sample_detail_def)
  have answer: "(case sns_publish sample_env req of Inl err \<Rightarrow> Inl err
                 | Inr response \<Rightarrow> Inr status_200) = Inr status_200" for req
    by (simp add: sample_env_def)
  have start: "no_calls\<lparr>published := published no_calls @ [req]\<rparr> = \<lparr>published = [req]\<rparr>" for req
    by (simp add: no_calls_def)
  from no_container [OF fields none, where e = sample_env and ctx = "()" and w = no_calls]
  show ?thesis
    unfolding answer start by (elim conjE)
qed

end
